theory Spec2Isabelle
  imports Main "HOL-Library.AList"
begin

section \<open>Values of the configuration document\<close>

text \<open>
  \<open>brosel.py\<close> reads its configuration with \<open>yaml.load\<close>, which hands back ordinary
  Python values: \<open>None\<close>, booleans, integers, strings, lists and dictionaries. The loader
  and the rule engine only ever subscript these values with a string key, iterate over
  them, or ask whether they are strings, so every other scalar a document can hold
  behaves like \<open>PInt\<close> here. Dictionary keys are hashable scalars; a dictionary is an
  association list read with \<open>map_of\<close>.
\<close>

datatype pykey = KNone | KBool bool | KInt int | KStr string

datatype pyval =
    PNone
  | PBool bool
  | PInt int
  | PStr string
  | PList "pyval list"
  | PDict "(pykey \<times> pyval) list"

text \<open>
  The exceptions that the code can meet. \<open>ReError\<close> is \<open>re.error\<close>, \<open>BrowserError\<close> is
  \<open>webbrowser.Error\<close>; \<open>ValueError\<close> is what \<open>yaml.load\<close> raises, besides \<open>YAMLError\<close>,
  on a scalar it cannot build (a date such as 2017-02-30).
\<close>

datatype err =
  KeyError | TypeError | ValueError | AttributeError | IOError | YAMLError | ReError | BrowserError

fun key_val :: "pykey \<Rightarrow> pyval" where
  "key_val KNone = PNone"
| "key_val (KBool b) = PBool b"
| "key_val (KInt i) = PInt i"
| "key_val (KStr s) = PStr s"

text \<open>
  \<open>v[k]\<close> for a string \<open>k\<close>: a dictionary raises \<open>KeyError\<close> when the key is missing;
  a string or a list raises \<open>TypeError\<close> (their indices must be integers), and so does
  every value that cannot be subscripted.
\<close>

fun getitem :: "pyval \<Rightarrow> string \<Rightarrow> err + pyval" where
  "getitem (PDict kvs) k =
     (case map_of kvs (KStr k) of None \<Rightarrow> Inl KeyError | Some v \<Rightarrow> Inr v)"
| "getitem _ k = Inl TypeError"

text \<open>
  \<open>for x in v\<close>: a list yields its elements, a dictionary its keys, a string its
  characters as one-character strings; anything else raises \<open>TypeError\<close>.
\<close>

fun py_iter :: "pyval \<Rightarrow> err + pyval list" where
  "py_iter (PList xs) = Inr xs"
| "py_iter (PDict kvs) = Inr (map key_val (remdups (map fst kvs)))"
| "py_iter (PStr s) = Inr (map (\<lambda>c. PStr [c]) s)"
| "py_iter _ = Inl TypeError"

text \<open>\<open>isinstance(v, basestring)\<close>.\<close>

fun is_basestring :: "pyval \<Rightarrow> bool" where
  "is_basestring (PStr s) = True"
| "is_basestring _ = False"

section \<open>The configuration object\<close>

text \<open>
  A rule is the dictionary \<open>r\<close> that \<open>load_from_file\<close> builds: its keys are among
  \<open>browser_id\<close>, \<open>url_pattern\<close> and \<open>url_replace\<close>. \<open>r[k] = v\<close> is \<open>AList.update\<close>,
  \<open>r.get(k)\<close> is \<open>dict_get\<close> (\<open>None\<close> for a missing key) and \<open>len(r)\<close> is the length of the
  list.
\<close>

type_synonym rule = "(string \<times> pyval) list"

definition dict_get :: "rule \<Rightarrow> string \<Rightarrow> pyval" where
  "dict_get r k = (case map_of r k of None \<Rightarrow> PNone | Some v \<Rightarrow> v)"

record config =
  browser_default :: pyval
  rules :: "rule list"

definition BROWSER_DEFAULT :: string where
  "BROWSER_DEFAULT = ''open -a Safari %s''"

definition rule_keys :: "string list" where
  "rule_keys = [''browser_id'', ''url_pattern'', ''url_replace'']"

subsection \<open>\<open>Config.load_from_file\<close>\<close>

text \<open>
  The innermost \<open>try\<close>: \<open>r[k] = r_data[k]\<close>, where only \<open>KeyError\<close> is caught. Any other
  exception leaves the loop over the keys.
\<close>

definition try_key :: "pyval \<Rightarrow> rule \<Rightarrow> string \<Rightarrow> err + rule" where
  "try_key r_data r k =
     (case getitem r_data k of
        Inr v \<Rightarrow> Inr (AList.update k v r)
      | Inl e \<Rightarrow> if e = KeyError then Inr r else Inl e)"

fun for_keys :: "pyval \<Rightarrow> string list \<Rightarrow> rule \<Rightarrow> err + rule" where
  "for_keys r_data [] r = Inr r"
| "for_keys r_data (k # ks) r =
     (case try_key r_data r k of Inl e \<Rightarrow> Inl e | Inr r' \<Rightarrow> for_keys r_data ks r')"

text \<open>
  The loop \<open>for r_data in rules_data\<close>. The rules appended so far stay in \<open>self.rules\<close>
  when an exception leaves the loop, so the loop returns the exception (if any) together
  with the object.
\<close>

fun for_rules :: "pyval list \<Rightarrow> config \<Rightarrow> err option \<times> config" where
  "for_rules [] self = (None, self)"
| "for_rules (r_data # rest) self =
     (case for_keys r_data rule_keys [] of
        Inl e \<Rightarrow> (Some e, self)
      | Inr r \<Rightarrow>
          for_rules rest
            (if length r > 0 then self\<lparr>rules := rules self @ [r]\<rparr> else self))"

text \<open>\<open>except (E1, E2, ...)\<close>: an exception of a listed class is swallowed, any other goes on.\<close>

definition except :: "err list \<Rightarrow> err option \<times> 's \<Rightarrow> err option \<times> 's" where
  "except handled x =
     (case fst x of
        None \<Rightarrow> x
      | Some e \<Rightarrow> if e \<in> set handled then (None, snd x) else x)"

text \<open>The first \<open>try\<close> of \<open>load_from_file\<close>: \<open>self.browser_default = yaml_data['basic']['browser_id']\<close>.\<close>

definition set_browser_default :: "pyval \<Rightarrow> config \<Rightarrow> err option \<times> config" where
  "set_browser_default yaml_data self =
     (case getitem yaml_data ''basic'' of
        Inl e \<Rightarrow> (Some e, self)
      | Inr basic \<Rightarrow>
          (case getitem basic ''browser_id'' of
             Inl e \<Rightarrow> (Some e, self)
           | Inr v \<Rightarrow> (None, self\<lparr>browser_default := v\<rparr>)))"

text \<open>The second \<open>try\<close>: \<open>rules_data = yaml_data['rules']\<close> and the loop over it.\<close>

definition set_rules :: "pyval \<Rightarrow> config \<Rightarrow> err option \<times> config" where
  "set_rules yaml_data self =
     (case getitem yaml_data ''rules'' of
        Inl e \<Rightarrow> (Some e, self)
      | Inr rules_data \<Rightarrow>
          (case py_iter rules_data of
             Inl e \<Rightarrow> (Some e, self)
           | Inr entries \<Rightarrow> for_rules entries self))"

text \<open>
  Reading the file: \<open>open\<close> and \<open>yaml.load\<close> either return the document or raise
  (\<open>Inl\<close>). \<open>IOError\<close> and \<open>YAMLError\<close> are caught and leave \<open>yaml_data = None\<close>; another
  exception leaves \<open>load_from_file\<close>.
\<close>

definition read_yaml :: "err + pyval \<Rightarrow> err option \<times> pyval" where
  "read_yaml file = except [IOError, YAMLError]
     (case file of Inl e \<Rightarrow> (Some e, PNone) | Inr v \<Rightarrow> (None, v))"

definition load_from_file :: "config \<Rightarrow> err + pyval \<Rightarrow> err option \<times> config" where
  "load_from_file self file =
     (case read_yaml file of
        (Some e, _) \<Rightarrow> (Some e, self)
      | (None, yaml_data) \<Rightarrow>
          (case except [KeyError, TypeError] (set_browser_default yaml_data self) of
             (Some e, self1) \<Rightarrow> (Some e, self1)
           | (None, self1) \<Rightarrow> except [KeyError, TypeError] (set_rules yaml_data self1)))"

text \<open>
  \<open>Config.__init__\<close>: the defaults, then the first configuration file that exists, if
  there is one (\<open>None\<close>: no candidate file exists).
\<close>

definition Config_init :: "(err + pyval) option \<Rightarrow> err option \<times> config" where
  "Config_init found =
     (let self = \<lparr>browser_default = PStr BROWSER_DEFAULT, rules = []\<rparr>
      in case found of
           None \<Rightarrow> (None, self)
         | Some file \<Rightarrow> load_from_file self file)"

section \<open>The rule engine\<close>

text \<open>
  \<open>select_and_open\<close> calls the regular-expression library (\<open>re.compile\<close>,
  \<open>p.search\<close>, \<open>p.sub\<close>) and the browser registry (\<open>webbrowser.get\<close>). Both are
  libraries, so the engine takes them as arguments. \<open>re_compile\<close> answers \<open>None\<close> where
  \<open>re.compile\<close> raises \<open>re.error\<close>; \<open>re_sub p repl s\<close> answers \<open>None\<close> where
  \<open>p.sub(repl, s)\<close> raises \<open>re.error\<close> (a template that names a group the pattern does
  not have). \<open>wget\<close> is \<open>webbrowser.get\<close>, which raises when it cannot find the browser.
\<close>

record 'p re_engine =
  re_compile :: "string \<Rightarrow> 'p option"
  re_search :: "'p \<Rightarrow> string \<Rightarrow> bool"
  re_sub :: "'p \<Rightarrow> string \<Rightarrow> string \<Rightarrow> string option"

text \<open>
  \<open>if isinstance(url_replace, basestring): url = p.sub(url_replace, url)\<close>
\<close>

definition apply_replace :: "'p re_engine \<Rightarrow> 'p \<Rightarrow> pyval \<Rightarrow> string \<Rightarrow> err + string" where
  "apply_replace E p url_replace u =
     (case url_replace of
        PStr repl \<Rightarrow> (case re_sub E p repl u of None \<Rightarrow> Inl ReError | Some u' \<Rightarrow> Inr u')
      | _ \<Rightarrow> Inr u)"

text \<open>
  \<open>if isinstance(browser_id, basestring): selected_browser = webbrowser.get(browser_id)\<close>
\<close>

definition apply_browser :: "(pyval \<Rightarrow> err + 'b) \<Rightarrow> pyval \<Rightarrow> 'b \<Rightarrow> err + 'b" where
  "apply_browser wget browser_id sel =
     (case browser_id of
        PStr b \<Rightarrow> wget (PStr b)
      | _ \<Rightarrow> Inr sel)"

text \<open>
  The body of \<open>for r in cfg.rules\<close>, on the local variables \<open>selected_browser\<close> and
  \<open>url\<close>. No exception is caught anywhere in \<open>select_and_open\<close>: the first one ends it.
\<close>

definition rule_body ::
  "'p re_engine \<Rightarrow> (pyval \<Rightarrow> err + 'b) \<Rightarrow> rule \<Rightarrow> 'b \<times> string \<Rightarrow> err + 'b \<times> string" where
  "rule_body E wget r st =
     (let url_pattern = dict_get r ''url_pattern'';
          url_replace = dict_get r ''url_replace'';
          browser_id = dict_get r ''browser_id''
      in case url_pattern of
           PStr pat \<Rightarrow>
             (case re_compile E pat of
                None \<Rightarrow> Inl ReError
              | Some p \<Rightarrow>
                  if re_search E p (snd st) then
                    (case apply_replace E p url_replace (snd st) of
                       Inl e \<Rightarrow> Inl e
                     | Inr u' \<Rightarrow>
                         (case apply_browser wget browser_id (fst st) of
                            Inl e \<Rightarrow> Inl e
                          | Inr sel' \<Rightarrow> Inr (sel', u')))
                  else Inr st)
         | _ \<Rightarrow> Inr st)"

text \<open>
  The loop, with the configuration object carried along: the loop reads \<open>cfg.rules\<close>
  and each rule \<open>r\<close> through \<open>r.get\<close>, and the object it leaves behind is returned next
  to the outcome.
\<close>

fun for_cfg_rules ::
  "'p re_engine \<Rightarrow> (pyval \<Rightarrow> err + 'b) \<Rightarrow> rule list \<Rightarrow> config \<Rightarrow> 'b \<times> string
     \<Rightarrow> (err + 'b \<times> string) \<times> config" where
  "for_cfg_rules E wget [] cfg st = (Inr st, cfg)"
| "for_cfg_rules E wget (r # rs) cfg st =
     (case rule_body E wget r st of
        Inl e \<Rightarrow> (Inl e, cfg)
      | Inr st' \<Rightarrow> for_cfg_rules E wget rs cfg st')"

text \<open>
  \<open>select_and_open(url, cfg)\<close>. The outcome is the exception that ended the call, or the
  browser and the URL handed to \<open>selected_browser.open_new_tab\<close>. The log lines are
  left out: they format values and change nothing (a browser is taken to have the
  \<open>name\<close> and \<open>args\<close> that the last two of them print).
\<close>

definition select_and_open ::
  "'p re_engine \<Rightarrow> (pyval \<Rightarrow> err + 'b) \<Rightarrow> string \<Rightarrow> config \<Rightarrow> (err + 'b \<times> string) \<times> config" where
  "select_and_open E wget u cfg =
     (case wget (browser_default cfg) of
        Inl e \<Rightarrow> (Inl e, cfg)
      | Inr selected_browser \<Rightarrow> for_cfg_rules E wget (rules cfg) cfg (selected_browser, u))"

section \<open>What the specification speaks of\<close>

text \<open>
  The notions the specification uses for the engine, written from its words: a rule
  matches the current URL when its pattern is a regular expression found in it; the
  URL after a rule is the rewritten one when the rule matches and carries a template;
  the browser identifiers in play are those of the matching rules, in stored order, each
  rule seeing the URL the rules before it have left.
\<close>

definition rule_matches :: "'p re_engine \<Rightarrow> rule \<Rightarrow> string \<Rightarrow> bool" where
  "rule_matches E r u =
     (case dict_get r ''url_pattern'' of
        PStr pat \<Rightarrow> (case re_compile E pat of None \<Rightarrow> False | Some p \<Rightarrow> re_search E p u)
      | _ \<Rightarrow> False)"

definition rewritten :: "'p re_engine \<Rightarrow> rule \<Rightarrow> string \<Rightarrow> string" where
  "rewritten E r u =
     (case dict_get r ''url_pattern'' of
        PStr pat \<Rightarrow>
          (case re_compile E pat of
             None \<Rightarrow> u
           | Some p \<Rightarrow>
               if re_search E p u then
                 (case dict_get r ''url_replace'' of
                    PStr repl \<Rightarrow> (case re_sub E p repl u of None \<Rightarrow> u | Some u' \<Rightarrow> u')
                  | _ \<Rightarrow> u)
               else u)
      | _ \<Rightarrow> u)"

fun matching_browser_ids :: "'p re_engine \<Rightarrow> rule list \<Rightarrow> string \<Rightarrow> string list" where
  "matching_browser_ids E [] u = []"
| "matching_browser_ids E (r # rs) u =
     (if rule_matches E r u
      then (case dict_get r ''browser_id'' of PStr b \<Rightarrow> [b] | _ \<Rightarrow> [])
      else [])
     @ matching_browser_ids E rs (rewritten E r u)"

definition last_matching_browser_id :: "'p re_engine \<Rightarrow> config \<Rightarrow> string \<Rightarrow> pyval" where
  "last_matching_browser_id E cfg u =
     (if matching_browser_ids E (rules cfg) u = [] then browser_default cfg
      else PStr (last (matching_browser_ids E (rules cfg) u)))"

text \<open>
  A rule is passed over without effect and without error: it has no string pattern, or
  its pattern is a regular expression that is not found in the URL.
\<close>

definition passes_over :: "'p re_engine \<Rightarrow> string \<Rightarrow> rule \<Rightarrow> bool" where
  "passes_over E u r =
     (case dict_get r ''url_pattern'' of
        PStr pat \<Rightarrow> (case re_compile E pat of None \<Rightarrow> False | Some p \<Rightarrow> \<not> re_search E p u)
      | _ \<Rightarrow> True)"

text \<open>
  A rule raises nothing on the URL \<open>u\<close>: its pattern, when it is a string, compiles, and
  when it is found in \<open>u\<close> the substitution of a string template succeeds and the registry
  knows a string \<open>browser_id\<close>. A rule list raises nothing when each rule raises nothing on
  the URL that the rules before it have left.
\<close>

definition rule_clean :: "'p re_engine \<Rightarrow> (pyval \<Rightarrow> err + 'b) \<Rightarrow> rule \<Rightarrow> string \<Rightarrow> bool" where
  "rule_clean E wget r u =
     (case dict_get r ''url_pattern'' of
        PStr pat \<Rightarrow>
          (case re_compile E pat of
             None \<Rightarrow> False
           | Some p \<Rightarrow>
               if re_search E p u then
                 (case dict_get r ''url_replace'' of
                    PStr repl \<Rightarrow> re_sub E p repl u \<noteq> None
                  | _ \<Rightarrow> True) \<and>
                 (case dict_get r ''browser_id'' of
                    PStr b \<Rightarrow> \<not> isl (wget (PStr b))
                  | _ \<Rightarrow> True)
               else True)
      | _ \<Rightarrow> True)"

fun runs_clean :: "'p re_engine \<Rightarrow> (pyval \<Rightarrow> err + 'b) \<Rightarrow> rule list \<Rightarrow> string \<Rightarrow> bool" where
  "runs_clean E wget [] u = True"
| "runs_clean E wget (r # rs) u = (rule_clean E wget r u \<and> runs_clean E wget rs (rewritten E r u))"

text \<open>The outcomes of a run of the main program: those of the calls, up to the first exception.\<close>

fun upto_first_error :: "(err + 'a) list \<Rightarrow> (err + 'a) list" where
  "upto_first_error [] = []"
| "upto_first_error (Inl e # xs) = [Inl e]"
| "upto_first_error (Inr x # xs) = Inr x # upto_first_error xs"

text \<open>
  For the loader: the value a document holds at \<open>basic.browser_id\<close> (the document and
  its \<open>basic\<close> entry are mappings and the key is there), the fields of a rule entry that
  is a mapping, in the order of \<open>rule_keys\<close>, and the entries of the \<open>rules\<close> sequence.
\<close>

definition basic_browser_id :: "pyval \<Rightarrow> pyval option" where
  "basic_browser_id doc =
     (case doc of
        PDict kvs \<Rightarrow>
          (case map_of kvs (KStr ''basic'') of
             Some (PDict basic) \<Rightarrow> map_of basic (KStr ''browser_id'')
           | _ \<Rightarrow> None)
      | _ \<Rightarrow> None)"

fun is_mapping :: "pyval \<Rightarrow> bool" where
  "is_mapping (PDict kvs) = True"
| "is_mapping _ = False"

fun present_fields :: "pyval \<Rightarrow> rule" where
  "present_fields (PDict kvs) =
     List.map_filter (\<lambda>k. map_option (Pair k) (map_of kvs (KStr k))) rule_keys"
| "present_fields _ = []"

definition rule_entries :: "pyval \<Rightarrow> pyval list" where
  "rule_entries doc =
     (case getitem doc ''rules'' of
        Inl e \<Rightarrow> []
      | Inr rules_data \<Rightarrow> (case py_iter rules_data of Inl e \<Rightarrow> [] | Inr entries \<Rightarrow> entries))"

text \<open>
  The rules a sequence of entries leaves in the configuration: the entries up to the
  first one that is not a mapping, each reduced to the fields it holds, those left with
  no field taken out.
\<close>

definition kept_rules :: "pyval list \<Rightarrow> rule list" where
  "kept_rules entries =
     filter (\<lambda>r. r \<noteq> []) (map present_fields (takeWhile is_mapping entries))"

section \<open>The configuration as an object\<close>

text \<open>
  \<open>cfg\<close>, the list \<open>cfg.rules\<close> and each rule \<open>r\<close> are Python objects that any
  statement could change in place. To say that \<open>select_and_open\<close> changes none of them,
  here it is once more on a heap of objects: every access of the source to \<open>cfg\<close> and to
  a rule is an operation that takes the heap and returns it with its result, and the
  loop fetches the items of the list one by one from the heap as it stands after the
  body, as Python's list iterator does.
\<close>

type_synonym addr = nat

datatype obj = ODict "(string \<times> pyval) list" | OList "addr list" | OConfig pyval addr

type_synonym heap = "obj list"

definition deref :: "heap \<Rightarrow> addr \<Rightarrow> obj option" where
  "deref h a = (if a < length h then Some (h ! a) else None)"

text \<open>
  \<open>cfg.browser_default\<close>, \<open>cfg.rules\<close>, \<open>r.get(k)\<close>, and the step of the iterator of
  \<open>for r in cfg.rules\<close> (\<open>None\<close>: the list has no item at that index, the loop ends).
\<close>

definition attr_browser_default :: "addr \<Rightarrow> heap \<Rightarrow> (err + pyval) \<times> heap" where
  "attr_browser_default c h =
     (case deref h c of Some (OConfig d l) \<Rightarrow> (Inr d, h) | _ \<Rightarrow> (Inl AttributeError, h))"

definition attr_rules :: "addr \<Rightarrow> heap \<Rightarrow> (err + addr) \<times> heap" where
  "attr_rules c h =
     (case deref h c of Some (OConfig d l) \<Rightarrow> (Inr l, h) | _ \<Rightarrow> (Inl AttributeError, h))"

definition get_at :: "addr \<Rightarrow> string \<Rightarrow> heap \<Rightarrow> (err + pyval) \<times> heap" where
  "get_at r k h =
     (case deref h r of Some (ODict kvs) \<Rightarrow> (Inr (dict_get kvs k), h) | _ \<Rightarrow> (Inl AttributeError, h))"

definition next_item :: "addr \<Rightarrow> nat \<Rightarrow> heap \<Rightarrow> (err + addr option) \<times> heap" where
  "next_item l i h =
     (case deref h l of
        Some (OList rs) \<Rightarrow> (Inr (if i < length rs then Some (rs ! i) else None), h)
      | _ \<Rightarrow> (Inl TypeError, h))"

text \<open>
  What the body of the loop does once the three fields are read: the same tests and
  calls as in \<open>rule_body\<close>.
\<close>

definition rule_effect ::
  "'p re_engine \<Rightarrow> (pyval \<Rightarrow> err + 'b) \<Rightarrow> pyval \<Rightarrow> pyval \<Rightarrow> pyval \<Rightarrow> 'b \<times> string
     \<Rightarrow> err + 'b \<times> string" where
  "rule_effect E wget url_pattern url_replace browser_id st =
     (case url_pattern of
        PStr pat \<Rightarrow>
          (case re_compile E pat of
             None \<Rightarrow> Inl ReError
           | Some p \<Rightarrow>
               if re_search E p (snd st) then
                 (case apply_replace E p url_replace (snd st) of
                    Inl e \<Rightarrow> Inl e
                  | Inr u' \<Rightarrow>
                      (case apply_browser wget browser_id (fst st) of
                         Inl e \<Rightarrow> Inl e
                       | Inr sel' \<Rightarrow> Inr (sel', u')))
               else Inr st)
      | _ \<Rightarrow> Inr st)"

definition rule_body_h ::
  "'p re_engine \<Rightarrow> (pyval \<Rightarrow> err + 'b) \<Rightarrow> addr \<Rightarrow> 'b \<times> string \<Rightarrow> heap
     \<Rightarrow> (err + 'b \<times> string) \<times> heap" where
  "rule_body_h E wget r st h =
     (case get_at r ''url_pattern'' h of
        (Inl e, h1) \<Rightarrow> (Inl e, h1)
      | (Inr url_pattern, h1) \<Rightarrow>
          (case get_at r ''url_replace'' h1 of
             (Inl e, h2) \<Rightarrow> (Inl e, h2)
           | (Inr url_replace, h2) \<Rightarrow>
               (case get_at r ''browser_id'' h2 of
                  (Inl e, h3) \<Rightarrow> (Inl e, h3)
                | (Inr browser_id, h3) \<Rightarrow>
                    (rule_effect E wget url_pattern url_replace browser_id st, h3))))"

text \<open>
  The loop ends because the body returns the heap it was given: the list keeps its
  length while the index grows.
\<close>

function for_rules_h ::
  "'p re_engine \<Rightarrow> (pyval \<Rightarrow> err + 'b) \<Rightarrow> addr \<Rightarrow> nat \<Rightarrow> 'b \<times> string \<Rightarrow> heap
     \<Rightarrow> (err + 'b \<times> string) \<times> heap" where
  "for_rules_h E wget l i st h =
     (case next_item l i h of
        (Inl e, h1) \<Rightarrow> (Inl e, h1)
      | (Inr None, h1) \<Rightarrow> (Inr st, h1)
      | (Inr (Some r), h1) \<Rightarrow>
          (case rule_body_h E wget r st h1 of
             (Inl e, h2) \<Rightarrow> (Inl e, h2)
           | (Inr st', h2) \<Rightarrow> for_rules_h E wget l (Suc i) st' h2))"
  by pat_completeness auto
termination
  apply (relation "measure (\<lambda>(E, wget, l, i, st, h).
          (case deref h l of Some (OList rs) \<Rightarrow> length rs - i | _ \<Rightarrow> 0))")
   apply simp
  apply (auto simp: next_item_def rule_body_h_def get_at_def
      split: option.splits obj.splits if_splits prod.splits sum.splits)
  done

declare for_rules_h.simps [simp del]

definition select_and_open_h ::
  "'p re_engine \<Rightarrow> (pyval \<Rightarrow> err + 'b) \<Rightarrow> string \<Rightarrow> addr \<Rightarrow> heap
     \<Rightarrow> (err + 'b \<times> string) \<times> heap" where
  "select_and_open_h E wget u cfg h =
     (case attr_browser_default cfg h of
        (Inl e, h1) \<Rightarrow> (Inl e, h1)
      | (Inr d, h1) \<Rightarrow>
          (case wget d of
             Inl e \<Rightarrow> (Inl e, h1)
           | Inr selected_browser \<Rightarrow>
               (case attr_rules cfg h1 of
                  (Inl e, h2) \<Rightarrow> (Inl e, h2)
                | (Inr l, h2) \<Rightarrow> for_rules_h E wget l 0 (selected_browser, u) h2)))"

text \<open>
  The main program: \<open>for arg in args: select_and_open(arg, cfg)\<close>, on one configuration
  object. It gives the outcomes in order; an exception ends the program.
\<close>

fun main_h ::
  "'p re_engine \<Rightarrow> (pyval \<Rightarrow> err + 'b) \<Rightarrow> string list \<Rightarrow> addr \<Rightarrow> heap
     \<Rightarrow> (err + 'b \<times> string) list \<times> heap" where
  "main_h E wget [] cfg h = ([], h)"
| "main_h E wget (arg # args) cfg h =
     (case select_and_open_h E wget arg cfg h of
        (Inl e, h') \<Rightarrow> ([Inl e], h')
      | (Inr x, h') \<Rightarrow>
          (case main_h E wget args cfg h' of (outs, h'') \<Rightarrow> (Inr x # outs, h'')))"

text \<open>
  The configuration that a heap holds at an address: the value that the rest of this
  theory calls \<open>cfg\<close>.
\<close>

definition rules_at :: "heap \<Rightarrow> addr list \<Rightarrow> rule list option" where
  "rules_at h rs =
     (if list_all (\<lambda>a. (case deref h a of Some (ODict kvs) \<Rightarrow> True | _ \<Rightarrow> False)) rs
      then Some (map (\<lambda>a. (case deref h a of Some (ODict kvs) \<Rightarrow> kvs | _ \<Rightarrow> [])) rs)
      else None)"

definition config_at :: "heap \<Rightarrow> addr \<Rightarrow> config option" where
  "config_at h cfg =
     (case deref h cfg of
        Some (OConfig d l) \<Rightarrow>
          (case deref h l of
             Some (OList rs) \<Rightarrow>
               (case rules_at h rs of
                  Some rl \<Rightarrow> Some \<lparr>browser_default = d, rules = rl\<rparr>
                | None \<Rightarrow> None)
           | _ \<Rightarrow> None)
      | _ \<Rightarrow> None)"


section \<open>A small regular-expression engine\<close>

text \<open>
  To run the engine on the specification's examples, here is a backtracking matcher for
  a fragment of the pattern language of Python's \<open>re\<close>: literal characters, \<open>.\<close> (any
  character but a newline), a backslash before a character that is neither a letter nor
  a digit (that character, literally), capturing groups \<open>( )\<close> numbered by their opening
  parenthesis, and the greedy star after a single character. Within the fragment,
  \<open>mini_parse\<close> rejects what \<open>re.compile\<close> rejects (an unbalanced parenthesis, a star
  with nothing before it, a star after a star, a backslash at the end); it also rejects
  every pattern outside the fragment, which is why the examples stay inside it.
  Templates are literal text, a doubled backslash and a group reference (a backslash and one
  digit); a reference to a group that the pattern does not have is an error, as in \<open>re\<close>.
\<close>

definition bslash :: char where
  "bslash = CHR 0x5C"

datatype atom = AChar char | AAny

datatype rtok = One atom | Many atom | Open nat | Close nat

definition alnum :: "char \<Rightarrow> bool" where
  "alnum c = (c \<in> set ''0123456789abcdefghijklmnopqrstuvwxyzABCDEFGHIJKLMNOPQRSTUVWXYZ'')"

fun mini_parse :: "string \<Rightarrow> rtok list \<Rightarrow> nat list \<Rightarrow> nat \<Rightarrow> (rtok list \<times> nat) option" where
  "mini_parse [] acc stk n = (if stk = [] then Some (rev acc, n) else None)"
| "mini_parse (c # cs) acc stk n =
     (if c = CHR ''('' then mini_parse cs (Open (Suc n) # acc) (Suc n # stk) (Suc n)
      else if c = CHR '')'' then
        (case stk of [] \<Rightarrow> None | g # stk' \<Rightarrow> mini_parse cs (Close g # acc) stk' n)
      else if c = CHR ''*'' then
        (case acc of One a # acc' \<Rightarrow> mini_parse cs (Many a # acc') stk n | _ \<Rightarrow> None)
      else if c = CHR ''.'' then mini_parse cs (One AAny # acc) stk n
      else if c = bslash then
        (case cs of
           [] \<Rightarrow> None
         | d # ds \<Rightarrow> if alnum d then None else mini_parse ds (One (AChar d) # acc) stk n)
      else if c \<in> set ''^$+?{}[]|'' then None
      else mini_parse cs (One (AChar c) # acc) stk n)"

fun atom_ok :: "atom \<Rightarrow> char \<Rightarrow> bool" where
  "atom_ok (AChar c) x = (x = c)"
| "atom_ok AAny x = (x \<noteq> CHR 0x0A)"

text \<open>
  A match attempt at position \<open>pos\<close>, where the rest of the subject is \<open>s\<close>: the end
  of the match and the span of each group, or \<open>None\<close>. The star takes as many
  characters as it can and gives them back one at a time.
\<close>

type_synonym spans = "(nat \<times> nat \<times> nat) list"

fun mini_match ::
  "rtok list \<Rightarrow> string \<Rightarrow> nat \<Rightarrow> (nat \<times> nat) list \<times> spans \<Rightarrow> (nat \<times> spans) option" where
  "mini_match [] s pos env = Some (pos, snd env)"
| "mini_match (One a # ts) [] pos env = None"
| "mini_match (One a # ts) (x # xs) pos env =
     (if atom_ok a x then mini_match ts xs (Suc pos) env else None)"
| "mini_match (Many a # ts) [] pos env = mini_match ts [] pos env"
| "mini_match (Many a # ts) (x # xs) pos env =
     (if atom_ok a x then
        (case mini_match (Many a # ts) xs (Suc pos) env of
           Some m \<Rightarrow> Some m
         | None \<Rightarrow> mini_match ts (x # xs) pos env)
      else mini_match ts (x # xs) pos env)"
| "mini_match (Open g # ts) s pos env = mini_match ts s pos ((g, pos) # fst env, snd env)"
| "mini_match (Close g # ts) s pos env =
     mini_match ts s pos
       (fst env, (g, (case map_of (fst env) g of None \<Rightarrow> pos | Some b \<Rightarrow> b), pos) # snd env)"

text \<open>\<open>p.search\<close>: the leftmost position where a match attempt succeeds.\<close>

fun mini_search :: "rtok list \<Rightarrow> string \<Rightarrow> nat \<Rightarrow> (nat \<times> nat \<times> spans) option" where
  "mini_search ts [] pos =
     (case mini_match ts [] pos ([], []) of None \<Rightarrow> None | Some (e, sp) \<Rightarrow> Some (pos, e, sp))"
| "mini_search ts (x # xs) pos =
     (case mini_match ts (x # xs) pos ([], []) of
        None \<Rightarrow> mini_search ts xs (Suc pos)
      | Some (e, sp) \<Rightarrow> Some (pos, e, sp))"

datatype titem = TLit char | TGroup nat

definition digit_val :: "char \<Rightarrow> nat option" where
  "digit_val c = map_of (zip ''0123456789'' [0 ..< 10]) c"

fun parse_template :: "string \<Rightarrow> nat \<Rightarrow> titem list option" where
  "parse_template [] groups = Some []"
| "parse_template (c # cs) groups =
     (if c = bslash then
        (case cs of
           [] \<Rightarrow> None
         | d # ds \<Rightarrow>
             if d = bslash then map_option ((#) (TLit bslash)) (parse_template ds groups)
             else
               (case digit_val d of
                  None \<Rightarrow> None
                | Some g \<Rightarrow>
                    if g = 0 \<or> groups < g \<or> (ds \<noteq> [] \<and> digit_val (hd ds) \<noteq> None) then None
                    else map_option ((#) (TGroup g)) (parse_template ds groups)))
      else map_option ((#) (TLit c)) (parse_template cs groups))"

fun expand :: "titem list \<Rightarrow> string \<Rightarrow> spans \<Rightarrow> string option" where
  "expand [] s sp = Some []"
| "expand (TLit c # t) s sp = map_option ((#) c) (expand t s sp)"
| "expand (TGroup g # t) s sp =
     (case map_of sp g of
        None \<Rightarrow> None
      | Some (b, e) \<Rightarrow> map_option ((@) (take (e - b) (drop b s))) (expand t s sp))"

text \<open>
  \<open>p.sub\<close>, as Python 2 does it: from left to right, each match that does not overlap
  the one before it is replaced by the expanded template; an empty match right after
  the previous match is ignored, and after an empty match the search moves on by one
  character. \<open>pos\<close> is the position under examination and \<open>rest\<close> the subject from
  there, \<open>start\<close> the position from which matches are looked for again, \<open>i\<close> the end
  of the text already copied, \<open>n\<close> the number of replacements so far.
\<close>

fun mini_sub_scan ::
  "rtok list \<Rightarrow> titem list \<Rightarrow> string \<Rightarrow> string \<Rightarrow> nat \<Rightarrow> nat \<Rightarrow> nat \<Rightarrow> nat \<Rightarrow> string
     \<Rightarrow> string option" where
  "mini_sub_scan ts tmpl s rest pos start i n out =
     (case (if pos < start then None else mini_match ts rest pos ([], [])) of
        None \<Rightarrow>
          (case rest of
             [] \<Rightarrow> Some (out @ drop i s)
           | x # xs \<Rightarrow> mini_sub_scan ts tmpl s xs (Suc pos) start i n out)
      | Some (e, sp) \<Rightarrow>
          (case expand tmpl s sp of
             None \<Rightarrow> None
           | Some repl \<Rightarrow>
               (let start' = (if e = pos then Suc pos else e);
                    skip = (\<not> i < pos \<and> i = pos \<and> i = e \<and> 0 < n);
                    out' = (if skip then out else out @ take (pos - i) (drop i s) @ repl);
                    i' = (if skip then i else e);
                    n' = (if skip then n else Suc n)
                in case rest of
                     [] \<Rightarrow> Some (out' @ drop i' s)
                   | x # xs \<Rightarrow> mini_sub_scan ts tmpl s xs (Suc pos) start' i' n' out')))"

definition mini_sub :: "rtok list \<times> nat \<Rightarrow> string \<Rightarrow> string \<Rightarrow> string option" where
  "mini_sub p repl s =
     (case parse_template repl (snd p) of
        None \<Rightarrow> None
      | Some tmpl \<Rightarrow> mini_sub_scan (fst p) tmpl s s 0 0 0 0 [])"

definition mini_re :: "(rtok list \<times> nat) re_engine" where
  "mini_re = \<lparr> re_compile = (\<lambda>pat. mini_parse pat [] [] 0),
               re_search = (\<lambda>p s. mini_search (fst p) s 0 \<noteq> None),
               re_sub = mini_sub \<rparr>"

text \<open>
  What it means that every occurrence is replaced, said without the scan: from position
  \<open>i\<close> on, either the pattern is found nowhere and the text stays, or its leftmost
  occurrence runs from \<open>b\<close> to \<open>e\<close> with the group spans \<open>sp\<close>; then the text before
  it stays, the occurrence becomes the template with each group reference replaced by
  the text of that group in this occurrence (\<open>expand\<close>), and the same holds from \<open>e\<close> on.
  It is stated for patterns that take at least one character (\<open>consumes\<close>).
\<close>

inductive replaced :: "rtok list \<Rightarrow> titem list \<Rightarrow> string \<Rightarrow> nat \<Rightarrow> string \<Rightarrow> bool"
  for ts :: "rtok list" and tmpl :: "titem list" and s :: string where
  rest: "mini_search ts (drop i s) i = None \<Longrightarrow> replaced ts tmpl s i (drop i s)"
| occurrence:
    "mini_search ts (drop i s) i = Some (b, e, sp) \<Longrightarrow> b < e \<Longrightarrow> expand tmpl s sp = Some x \<Longrightarrow>
     replaced ts tmpl s e out \<Longrightarrow>
     replaced ts tmpl s i (take (b - i) (drop i s) @ x @ out)"





text \<open>A browser registry that knows every identifier: the browser is named by it.\<close>

definition wget_any :: "pyval \<Rightarrow> err + pyval" where
  "wget_any v = Inr v"

text \<open>A registry that knows no browser at all.\<close>

definition wget_none :: "pyval \<Rightarrow> err + pyval" where
  "wget_none v = Inl BrowserError"

section \<open>The engine only reads the configuration\<close>

lemma for_cfg_rules_cfg: "snd (for_cfg_rules E wget rs cfg st) = cfg"
  by (induction rs arbitrary: st) (auto split: sum.splits)

lemma select_and_open_cfg: "snd (select_and_open E wget u cfg) = cfg"
  by (simp add: select_and_open_def for_cfg_rules_cfg split: sum.splits)

lemma for_cfg_rules_append:
  "for_cfg_rules E wget (rs1 @ rs2) cfg st =
     (case fst (for_cfg_rules E wget rs1 cfg st) of
        Inl e \<Rightarrow> (Inl e, cfg)
      | Inr st' \<Rightarrow> for_cfg_rules E wget rs2 cfg st')"
  by (induction rs1 arbitrary: st) (auto split: sum.splits)

lemma rule_body_passes_over:
  "passes_over E (snd st) r \<Longrightarrow> rule_body E wget r st = Inr st"
  by (auto simp: passes_over_def rule_body_def Let_def split: pyval.splits option.splits)

lemma for_cfg_rules_passes_over:
  "list_all (passes_over E u) rs \<Longrightarrow> for_cfg_rules E wget rs cfg (sel, u) = (Inr (sel, u), cfg)"
  by (induction rs) (simp_all add: rule_body_passes_over)

lemma rule_body_no_pattern:
  "\<not> is_basestring (dict_get r ''url_pattern'') \<Longrightarrow> rule_body E wget r st = Inr st"
  by (cases "dict_get r ''url_pattern''") (simp_all add: rule_body_def)

lemma rule_body_invalid:
  "dict_get r ''url_pattern'' = PStr pat \<Longrightarrow> re_compile E pat = None \<Longrightarrow>
   rule_body E wget r st = Inl ReError"
  by (simp add: rule_body_def)

lemma for_cfg_rules_invalid:
  "r \<in> set rs \<Longrightarrow> dict_get r ''url_pattern'' = PStr pat \<Longrightarrow> re_compile E pat = None \<Longrightarrow>
   isl (fst (for_cfg_rules E wget rs cfg st))"
  by (induction rs arbitrary: st) (auto simp: rule_body_invalid split: sum.splits)

lemma rule_body_result:
  assumes "rule_body E wget r (sel, u) = Inr (sel', u')"
  shows "u' = rewritten E r u"
    and "rule_matches E r u \<Longrightarrow> dict_get r ''browser_id'' = PStr b \<Longrightarrow> wget (PStr b) = Inr sel'"
    and "\<not> (rule_matches E r u \<and> is_basestring (dict_get r ''browser_id'')) \<Longrightarrow> sel' = sel"
  using assms
  by (auto simp: rule_body_def rewritten_def rule_matches_def apply_replace_def apply_browser_def
      Let_def split: pyval.splits option.splits sum.splits if_splits)

section \<open>What one rule does\<close>

lemma rule_body_returns:
  "(\<not> isl (rule_body E wget r (sel, u))) = rule_clean E wget r u"
  by (auto simp: rule_body_def rule_clean_def apply_replace_def apply_browser_def Let_def
      split: pyval.splits option.splits sum.splits)

lemma for_cfg_rules_returns:
  "(\<not> isl (fst (for_cfg_rules E wget rs cfg (sel, u)))) = runs_clean E wget rs u"
proof (induction rs arbitrary: sel u)
  case Nil
  show ?case by simp
next
  case (Cons r rs)
  show ?case
  proof (cases "rule_body E wget r (sel, u)")
    case (Inl e)
    with rule_body_returns [of E wget r sel u] show ?thesis by simp
  next
    case (Inr st)
    obtain sel1 u1 where st: "st = (sel1, u1)" by (cases st)
    from Inr st have u1: "u1 = rewritten E r u" by (simp add: rule_body_result(1))
    from Inr rule_body_returns [of E wget r sel u] have "rule_clean E wget r u" by simp
    with Inr st u1 Cons.IH [of sel1 u1] show ?thesis by simp
  qed
qed

lemma for_cfg_rules_browser:
  "fst (for_cfg_rules E wget rs cfg (sel, u)) = Inr (b, u') \<Longrightarrow>
   (if matching_browser_ids E rs u = [] then b = sel
    else wget (PStr (last (matching_browser_ids E rs u))) = Inr b)"
proof (induction rs arbitrary: sel u)
  case Nil
  then show ?case by simp
next
  case (Cons r rs)
  from Cons.prems obtain sel1 u1 where
    body: "rule_body E wget r (sel, u) = Inr (sel1, u1)" and
    rest: "fst (for_cfg_rules E wget rs cfg (sel1, u1)) = Inr (b, u')"
    by (auto split: sum.splits)
  have u1: "u1 = rewritten E r u" using body by (rule rule_body_result(1))
  note IH = Cons.IH [OF rest]
  show ?case
  proof (cases "matching_browser_ids E rs u1 = []")
    case False
    with IH u1 show ?thesis by simp
  next
    case True
    with IH have b: "b = sel1" by simp
    show ?thesis
    proof (cases "rule_matches E r u \<and> is_basestring (dict_get r ''browser_id'')")
      case False
      with rule_body_result(3) [OF body] have "sel1 = sel" by simp
      with False True u1 b show ?thesis
        by (auto split: pyval.splits)
    next
      case yes: True
      then obtain bid where bid: "dict_get r ''browser_id'' = PStr bid"
        by (cases "dict_get r ''browser_id''") simp_all
      with yes rule_body_result(2) [OF body] have "wget (PStr bid) = Inr sel1" by simp
      with yes bid True u1 b show ?thesis by simp
    qed
  qed
qed

lemma rule_body_match:
  assumes "dict_get r ''url_pattern'' = PStr pat" "re_compile E pat = Some p" "re_search E p u"
  shows "rule_body E wget r (sel, u) =
     (case apply_replace E p (dict_get r ''url_replace'') u of
        Inl e \<Rightarrow> Inl e
      | Inr u' \<Rightarrow>
          (case apply_browser wget (dict_get r ''browser_id'') sel of
             Inl e \<Rightarrow> Inl e
           | Inr sel' \<Rightarrow> Inr (sel', u')))"
  using assms by (simp add: rule_body_def split: sum.splits)

lemma apply_replace_not_string:
  "\<not> is_basestring v \<Longrightarrow> apply_replace E p v u = Inr u"
  by (cases v) (simp_all add: apply_replace_def)

lemma apply_browser_not_string:
  "\<not> is_basestring v \<Longrightarrow> apply_browser wget v sel = Inr sel"
  by (cases v) (simp_all add: apply_browser_def)

lemma apply_replace_string:
  "apply_replace E p (PStr repl) u = (case re_sub E p repl u of None \<Rightarrow> Inl ReError | Some u' \<Rightarrow> Inr u')"
  by (simp add: apply_replace_def)

lemma apply_browser_string:
  "apply_browser wget (PStr b) sel = wget (PStr b)"
  by (simp add: apply_browser_def)

section \<open>What the loader keeps\<close>

lemma for_keys_mapping:
  "for_keys (PDict kvs) rule_keys [] = Inr (present_fields (PDict kvs))"
  by (simp add: rule_keys_def try_key_def List.map_filter_def split: option.splits)

lemma for_keys_not_mapping:
  "\<not> is_mapping d \<Longrightarrow> for_keys d rule_keys [] = Inl TypeError"
  by (cases d) (simp_all add: rule_keys_def try_key_def)

lemma for_rules_result:
  "for_rules entries self =
     (if list_all is_mapping entries then None else Some TypeError,
      self\<lparr>rules := rules self @ kept_rules entries\<rparr>)"
proof (induction entries arbitrary: self)
  case Nil
  show ?case by (simp add: kept_rules_def)
next
  case (Cons d ds)
  show ?case
  proof (cases "is_mapping d")
    case False
    then show ?thesis by (simp add: for_keys_not_mapping kept_rules_def)
  next
    case True
    then obtain kvs where d: "d = PDict kvs" by (cases d) simp_all
    show ?thesis
      by (simp add: d for_keys_mapping Cons.IH kept_rules_def)
  qed
qed

lemma getitem_errors: "getitem v k = Inl e \<Longrightarrow> e = KeyError \<or> e = TypeError"
  by (cases v) (auto split: option.splits)

lemma py_iter_errors: "py_iter v = Inl e \<Longrightarrow> e = TypeError"
  by (cases v) auto

lemma set_rules_result:
  "snd (set_rules doc self) = self\<lparr>rules := rules self @ kept_rules (rule_entries doc)\<rparr>"
  by (auto simp: set_rules_def rule_entries_def for_rules_result kept_rules_def split: sum.splits)

lemma set_rules_errors:
  "fst (set_rules doc self) = Some e \<Longrightarrow> e = KeyError \<or> e = TypeError"
  by (auto simp: set_rules_def for_rules_result split: sum.splits if_splits
      dest: getitem_errors py_iter_errors)

lemma set_browser_default_result:
  "snd (set_browser_default doc self) =
     (case basic_browser_id doc of None \<Rightarrow> self | Some v \<Rightarrow> self\<lparr>browser_default := v\<rparr>)"
  by (cases doc)
     (auto simp: set_browser_default_def basic_browser_id_def split: sum.splits option.splits pyval.splits)

lemma set_browser_default_errors:
  "fst (set_browser_default doc self) = Some e \<Longrightarrow> e = KeyError \<or> e = TypeError"
  by (auto simp: set_browser_default_def split: sum.splits dest: getitem_errors)

lemma except_caught:
  "(\<And>e. fst x = Some e \<Longrightarrow> e \<in> set handled) \<Longrightarrow> except handled x = (None, snd x)"
  by (cases x) (auto simp: except_def split: option.splits)

lemma load_document:
  "load_from_file self (Inr doc) =
     (None, (case basic_browser_id doc of None \<Rightarrow> self | Some v \<Rightarrow> self\<lparr>browser_default := v\<rparr>)
              \<lparr>rules := rules self @ kept_rules (rule_entries doc)\<rparr>)"
proof -
  have 1: "except [KeyError, TypeError] (set_browser_default doc self) =
      (None, snd (set_browser_default doc self))"
    by (rule except_caught) (auto dest: set_browser_default_errors)
  have 2: "except [KeyError, TypeError] (set_rules doc s) = (None, snd (set_rules doc s))" for s
    by (rule except_caught) (auto dest: set_rules_errors)
  show ?thesis
    by (simp add: load_from_file_def read_yaml_def except_def [of _ "(None, _)"] 1 2
        set_rules_result set_browser_default_result split: option.splits)
qed

lemma load_unreadable:
  "e = IOError \<or> e = YAMLError \<Longrightarrow> load_from_file self (Inl e) = (None, self)"
proof -
  have 1: "except [KeyError, TypeError] (set_browser_default PNone self) = (None, self)"
    by (simp add: except_def set_browser_default_def)
  have 2: "except [KeyError, TypeError] (set_rules PNone self) = (None, self)"
    by (simp add: except_def set_rules_def)
  assume "e = IOError \<or> e = YAMLError"
  then show ?thesis
    by (auto simp: load_from_file_def read_yaml_def except_def [of "[IOError, YAMLError]"] 1 2)
qed

lemma Config_init_document:
  "Config_init (Some (Inr doc)) =
     (None, \<lparr>browser_default = (case basic_browser_id doc of None \<Rightarrow> PStr BROWSER_DEFAULT | Some v \<Rightarrow> v),
              rules = kept_rules (rule_entries doc)\<rparr>)"
  by (simp add: Config_init_def load_document split: option.splits)

lemma load_raises:
  "load_from_file self (Inl e) = (if e = IOError \<or> e = YAMLError then None else Some e, self)"
proof (cases "e = IOError \<or> e = YAMLError")
  case True
  then show ?thesis by (simp add: load_unreadable)
next
  case False
  then show ?thesis by (simp add: load_from_file_def read_yaml_def except_def)
qed

lemma Config_init_raises:
  "snd (Config_init (Some (Inl e))) = \<lparr>browser_default = PStr BROWSER_DEFAULT, rules = []\<rparr>"
  by (simp add: Config_init_def load_raises)

lemma present_fields_lookup:
  "map_of (present_fields (PDict kvs)) k =
     (if k \<in> set rule_keys then map_of kvs (KStr k) else None)"
proof -
  obtain a b c where
    a: "map_of kvs (KStr ''browser_id'') = a" and
    b: "map_of kvs (KStr ''url_pattern'') = b" and
    c: "map_of kvs (KStr ''url_replace'') = c"
    by simp
  show ?thesis
    by (cases a; cases b; cases c)
       (simp_all add: rule_keys_def List.map_filter_def a b c)
qed

section \<open>The heap after a call\<close>

lemma get_at_heap: "snd (get_at r k h) = h"
  by (simp add: get_at_def split: option.splits obj.splits)

lemma next_item_heap: "snd (next_item l i h) = h"
  by (simp add: next_item_def split: option.splits obj.splits)

lemma rule_body_h_heap: "snd (rule_body_h E wget r st h) = h"
  by (auto simp: rule_body_h_def get_at_def split: option.splits obj.splits)

lemma for_rules_h_no_list:
  "(\<And>rs. deref h l \<noteq> Some (OList rs)) \<Longrightarrow> for_rules_h E wget l i st h = (Inl TypeError, h)"
  by (subst for_rules_h.simps) (auto simp: next_item_def split: option.splits obj.splits)

lemma for_rules_h_step:
  assumes "deref h l = Some (OList rs)"
  shows "for_rules_h E wget l i st h =
     (if i < length rs then
        (case fst (rule_body_h E wget (rs ! i) st h) of
           Inl e \<Rightarrow> (Inl e, h)
         | Inr st' \<Rightarrow> for_rules_h E wget l (Suc i) st' h)
      else (Inr st, h))"
proof -
  obtain out h2 where rb: "rule_body_h E wget (rs ! i) st h = (out, h2)"
    by (cases "rule_body_h E wget (rs ! i) st h")
  with rule_body_h_heap [of E wget "rs ! i" st h] have "h2 = h" by simp
  with rb assms show ?thesis
    by (subst for_rules_h.simps) (simp add: next_item_def split: sum.splits)
qed

lemma for_rules_h_heap: "snd (for_rules_h E wget l i st h) = h"
proof (cases "\<exists>rs. deref h l = Some (OList rs)")
  case False
  then show ?thesis by (simp add: for_rules_h_no_list)
next
  case True
  then obtain rs where rs: "deref h l = Some (OList rs)" by blast
  show ?thesis
  proof (induction "length rs - i" arbitrary: i st)
    case 0
    then show ?case by (simp add: for_rules_h_step [OF rs])
  next
    case (Suc n)
    then have "n = length rs - Suc i" by simp
    from Suc.hyps(1) [OF this] show ?case
      by (simp add: for_rules_h_step [OF rs] split: sum.splits)
  qed
qed

lemma select_and_open_h_heap: "snd (select_and_open_h E wget u cfg h) = h"
  by (auto simp: select_and_open_h_def attr_browser_default_def attr_rules_def for_rules_h_heap
      split: option.splits obj.splits sum.splits)

lemma main_h_heap: "snd (main_h E wget args cfg h) = h"
proof (induction args)
  case Nil
  show ?case by simp
next
  case (Cons a args)
  obtain out h1 where so: "select_and_open_h E wget a cfg h = (out, h1)"
    by (cases "select_and_open_h E wget a cfg h")
  with select_and_open_h_heap [of E wget a cfg h] have h1: "h1 = h" by simp
  obtain outs h2 where ml: "main_h E wget args cfg h = (outs, h2)"
    by (cases "main_h E wget args cfg h")
  with Cons.IH have "h2 = h" by simp
  with so h1 ml show ?case by (cases out) simp_all
qed

lemma main_h_outcomes:
  "fst (main_h E wget args cfg h) =
     upto_first_error (map (\<lambda>arg. fst (select_and_open_h E wget arg cfg h)) args)"
proof (induction args)
  case Nil
  show ?case by simp
next
  case (Cons a args)
  obtain out h1 where so: "select_and_open_h E wget a cfg h = (out, h1)"
    by (cases "select_and_open_h E wget a cfg h")
  with select_and_open_h_heap [of E wget a cfg h] have h1: "h1 = h" by simp
  obtain outs h2 where ml: "main_h E wget args cfg h = (outs, h2)"
    by (cases "main_h E wget args cfg h")
  with so h1 Cons.IH show ?case by (cases out) simp_all
qed

lemma rule_body_effect:
  "rule_body E wget r st =
     rule_effect E wget (dict_get r ''url_pattern'') (dict_get r ''url_replace'')
       (dict_get r ''browser_id'') st"
  by (simp add: rule_body_def rule_effect_def)

lemma rule_body_h_dict:
  "deref h r = Some (ODict kvs) \<Longrightarrow> rule_body_h E wget r st h = (rule_body E wget kvs st, h)"
  by (simp add: rule_body_h_def get_at_def rule_body_effect)

lemma rules_at_nth:
  assumes "rules_at h rs = Some rl" "i < length rs"
  shows "deref h (rs ! i) = Some (ODict (rl ! i))" "length rl = length rs"
proof -
  from assms(1) have all: "list_all (\<lambda>a. (case deref h a of Some (ODict kvs) \<Rightarrow> True | _ \<Rightarrow> False)) rs"
    and rl: "rl = map (\<lambda>a. (case deref h a of Some (ODict kvs) \<Rightarrow> kvs | _ \<Rightarrow> [])) rs"
    by (auto simp: rules_at_def split: if_splits)
  from rl show "length rl = length rs" by simp
  from all assms(2) have "case deref h (rs ! i) of Some (ODict kvs) \<Rightarrow> True | _ \<Rightarrow> False"
    by (simp add: list_all_length)
  with rl assms(2) show "deref h (rs ! i) = Some (ODict (rl ! i))"
    by (auto split: option.splits obj.splits)
qed

lemma for_rules_h_refines:
  assumes l: "deref h l = Some (OList rs)" and rl: "rules_at h rs = Some rl"
  shows "fst (for_rules_h E wget l i st h) = fst (for_cfg_rules E wget (drop i rl) c st)"
proof -
  have len: "length rl = length rs"
    using rl by (auto simp: rules_at_def split: if_splits)
  show ?thesis
  proof (induction "length rs - i" arbitrary: i st)
    case 0
    then show ?case by (simp add: for_rules_h_step [OF l] len)
  next
    case (Suc n)
    then have i: "i < length rs" and n: "n = length rs - Suc i" by simp_all
    from i len have d: "drop i rl = rl ! i # drop (Suc i) rl"
      by (simp add: Cons_nth_drop_Suc)
    from Suc.hyps(1) [OF n] i show ?case
      by (simp add: for_rules_h_step [OF l] d rule_body_h_dict [OF rules_at_nth(1) [OF rl i]]
          split: sum.splits)
  qed
qed

lemma select_and_open_h_refines:
  assumes "config_at h cfg = Some c"
  shows "fst (select_and_open_h E wget u cfg h) = fst (select_and_open E wget u c)"
proof -
  from assms obtain d l rs rl where
    c: "deref h cfg = Some (OConfig d l)" and l: "deref h l = Some (OList rs)" and
    rl: "rules_at h rs = Some rl" and cc: "c = \<lparr>browser_default = d, rules = rl\<rparr>"
    by (auto simp: config_at_def split: option.splits obj.splits)
  from for_rules_h_refines [OF l rl, of E wget 0 _ c]
  show ?thesis
    by (simp add: select_and_open_h_def select_and_open_def attr_browser_default_def
        attr_rules_def c cc split: sum.splits)
qed

section \<open>Substitution replaces every occurrence\<close>





lemma search_end:
  "mini_match ts (drop j s) j ([], []) = None \<Longrightarrow> length s \<le> j \<Longrightarrow>
   mini_search ts (drop j s) j = None"
  by simp







section \<open>Invalid patterns\<close>

text \<open>
  Claim C1 says that a rule whose \<open>url_pattern\<close> cannot be compiled is treated as a rule
  that does not match, and that evaluation goes on with the rules after it. In
  \<open>select_and_open\<close> the call \<open>re.compile(url_pattern)\<close> stands outside any \<open>try\<close>:
  with the rules \<open>[{url_pattern: "("}, {url_pattern: "a", browser_id: "chrome"}]\<close> and the
  URL \<open>abc\<close> the call ends with the error of \<open>re.compile\<close>, although the second rule
  alone selects \<open>chrome\<close>.
\<close>

theorem invalid_pattern_counterexample:
  "re_compile mini_re ''('' = None \<and>
   fst (select_and_open mini_re wget_any ''abc''
          \<lparr>browser_default = PStr ''safari'',
             rules = [[(''url_pattern'', PStr ''('')],
                      [(''url_pattern'', PStr ''a''), (''browser_id'', PStr ''chrome'')]]\<rparr>)
     = Inl ReError \<and>
   fst (select_and_open mini_re wget_any ''abc''
          \<lparr>browser_default = PStr ''safari'',
             rules = [[(''url_pattern'', PStr ''a''), (''browser_id'', PStr ''chrome'')]]\<rparr>)
     = Inr (PStr ''chrome'', ''abc'')"
  by code_simp

text \<open>
  Claim C1, as the code has it: when a rule of the configuration has a string
  \<open>url_pattern\<close> that is not a regular expression, \<open>select_and_open\<close> ends with an
  exception for every URL and hands nothing to a browser; when the browser of the default
  is found and the rules before the invalid one raise nothing, the exception is the
  compile error, raised at that rule, and the configuration is left as it was. A rule
  whose \<open>url_pattern\<close> is missing or is not a string is no error: its body changes
  neither the browser nor the URL.
\<close>

theorem invalid_pattern_ends_resolution:
  assumes "rules cfg = pre @ r # post"
    and "dict_get r ''url_pattern'' = PStr pat"
    and "re_compile E pat = None"
  shows "isl (fst (select_and_open E wget u cfg)) \<and>
         (\<forall>sel st. wget (browser_default cfg) = Inr sel \<longrightarrow>
                   fst (for_cfg_rules E wget pre cfg (sel, u)) = Inr st \<longrightarrow>
                   select_and_open E wget u cfg = (Inl ReError, cfg)) \<and>
         (\<forall>r' st. \<not> is_basestring (dict_get r' ''url_pattern'') \<longrightarrow>
                   rule_body E wget r' st = Inr st)"
proof (intro conjI)
  have "r \<in> set (rules cfg)" using assms(1) by simp
  then have "isl (fst (for_cfg_rules E wget (rules cfg) cfg st))" for st
    by (rule for_cfg_rules_invalid [OF _ assms(2,3)])
  then show "isl (fst (select_and_open E wget u cfg))"
    by (simp add: select_and_open_def split: sum.splits)
next
  show "\<forall>sel st. wget (browser_default cfg) = Inr sel \<longrightarrow>
                   fst (for_cfg_rules E wget pre cfg (sel, u)) = Inr st \<longrightarrow>
                   select_and_open E wget u cfg = (Inl ReError, cfg)"
    by (simp add: select_and_open_def assms(1) for_cfg_rules_append
        rule_body_invalid [OF assms(2,3)])
next
  show "\<forall>r' st. \<not> is_basestring (dict_get r' ''url_pattern'') \<longrightarrow>
                   rule_body E wget r' st = Inr st"
    by (simp add: rule_body_no_pattern)
qed

text \<open>
  An instance: a rule without a pattern, a rule whose pattern is a number, a matching
  rule, then the invalid pattern, then a further rule. The first two are passed over,
  the third selects \<open>chrome\<close>, the fourth raises.
\<close>

theorem invalid_pattern_ends_resolution_witness:
  "fst (for_cfg_rules mini_re wget_any
          [[(''browser_id'', PStr ''opera'')],
           [(''url_pattern'', PInt 5), (''browser_id'', PStr ''opera'')],
           [(''url_pattern'', PStr ''a''), (''browser_id'', PStr ''chrome'')]]
          \<lparr>browser_default = PStr ''safari'',
             rules = [[(''browser_id'', PStr ''opera'')],
                      [(''url_pattern'', PInt 5), (''browser_id'', PStr ''opera'')],
                      [(''url_pattern'', PStr ''a''), (''browser_id'', PStr ''chrome'')],
                      [(''url_pattern'', PStr ''('')],
                      [(''browser_id'', PStr ''firefox'')]]\<rparr>
          (PStr ''safari'', ''abc''))
     = Inr (PStr ''chrome'', ''abc'') \<and>
   select_and_open mini_re wget_any ''abc''
          \<lparr>browser_default = PStr ''safari'',
             rules = [[(''browser_id'', PStr ''opera'')],
                      [(''url_pattern'', PInt 5), (''browser_id'', PStr ''opera'')],
                      [(''url_pattern'', PStr ''a''), (''browser_id'', PStr ''chrome'')],
                      [(''url_pattern'', PStr ''('')],
                      [(''browser_id'', PStr ''firefox'')]]\<rparr>
     = (Inl ReError,
          \<lparr>browser_default = PStr ''safari'',
             rules = [[(''browser_id'', PStr ''opera'')],
                      [(''url_pattern'', PInt 5), (''browser_id'', PStr ''opera'')],
                      [(''url_pattern'', PStr ''a''), (''browser_id'', PStr ''chrome'')],
                      [(''url_pattern'', PStr ''('')],
                      [(''browser_id'', PStr ''firefox'')]]\<rparr>) \<and>
   rule_body mini_re wget_any [(''browser_id'', PStr ''opera'')] (PStr ''safari'', ''abc'')
     = Inr (PStr ''safari'', ''abc'') \<and>
   rule_body mini_re wget_any [(''url_pattern'', PInt 5), (''browser_id'', PStr ''opera'')]
       (PStr ''safari'', ''abc'')
     = Inr (PStr ''safari'', ''abc'')"
proof -
  let ?n = "[(''browser_id'', PStr ''opera'')]"
  let ?m = "[(''url_pattern'', PInt 5), (''browser_id'', PStr ''opera'')]"
  let ?pre = "[?n, ?m, [(''url_pattern'', PStr ''a''), (''browser_id'', PStr ''chrome'')]]"
  let ?r = "[(''url_pattern'', PStr ''('')]"
  let ?post = "[[(''browser_id'', PStr ''firefox'')]]"
  let ?cfg = "\<lparr>browser_default = PStr ''safari'', rules = ?pre @ ?r # ?post\<rparr>"
  have 1: "rules ?cfg = ?pre @ ?r # ?post" by simp
  have 2: "dict_get ?r ''url_pattern'' = PStr ''(''" by (simp add: dict_get_def)
  have 3: "re_compile mini_re ''('' = None" by code_simp
  have 4: "wget_any (browser_default ?cfg) = Inr (PStr ''safari'')" by (simp add: wget_any_def)
  have 5: "fst (for_cfg_rules mini_re wget_any ?pre ?cfg (PStr ''safari'', ''abc''))
             = Inr (PStr ''chrome'', ''abc'')" by code_simp
  have 6: "\<not> is_basestring (dict_get ?n ''url_pattern'')" by (simp add: dict_get_def)
  have 7: "\<not> is_basestring (dict_get ?m ''url_pattern'')" by (simp add: dict_get_def)
  note inst = invalid_pattern_ends_resolution [OF 1 2 3, of wget_any "''abc''"]
  from inst 4 5 have a: "select_and_open mini_re wget_any ''abc'' ?cfg = (Inl ReError, ?cfg)"
    by blast
  from inst 6 have b: "rule_body mini_re wget_any ?n (PStr ''safari'', ''abc'') = Inr (PStr ''safari'', ''abc'')"
    by blast
  from inst 7 have c: "rule_body mini_re wget_any ?m (PStr ''safari'', ''abc'') = Inr (PStr ''safari'', ''abc'')"
    by blast
  from 5 a b c show ?thesis by simp
qed

section \<open>The selected browser\<close>

text \<open>
  Claim C2 says, for every ruleset and URL, that the resolved browser is that of the
  last matching rule with a \<open>browser_id\<close>, or the default. With the rules
  \<open>[{url_pattern: "a", browser_id: "chrome"}, {url_pattern: "("}]\<close> and the URL \<open>abc\<close> the
  last matching rule with a \<open>browser_id\<close> names \<open>chrome\<close>, and with the single rule
  \<open>{url_pattern: "("}\<close> no rule matches, so the default should be resolved; in both cases
  \<open>select_and_open\<close> raises the compile error and resolves nothing.
\<close>

theorem last_matching_rule_counterexample:
  "last_matching_browser_id mini_re
      \<lparr>browser_default = PStr ''safari'',
         rules = [[(''url_pattern'', PStr ''a''), (''browser_id'', PStr ''chrome'')],
                  [(''url_pattern'', PStr ''('')]]\<rparr> ''abc'' = PStr ''chrome'' \<and>
   fst (select_and_open mini_re wget_any ''abc''
      \<lparr>browser_default = PStr ''safari'',
         rules = [[(''url_pattern'', PStr ''a''), (''browser_id'', PStr ''chrome'')],
                  [(''url_pattern'', PStr ''('')]]\<rparr>) = Inl ReError \<and>
   last_matching_browser_id mini_re
      \<lparr>browser_default = PStr ''safari'', rules = [[(''url_pattern'', PStr ''('')]]\<rparr> ''abc''
     = PStr ''safari'' \<and>
   fst (select_and_open mini_re wget_any ''abc''
      \<lparr>browser_default = PStr ''safari'', rules = [[(''url_pattern'', PStr ''('')]]\<rparr>)
     = Inl ReError"
  by code_simp

text \<open>
  Claim C2, as the code has it. \<open>select_and_open\<close> returns exactly when the registry
  knows the default browser and the rule list raises nothing on the URL
  (\<open>runs_clean\<close>); and whenever it returns, the browser it hands to \<open>open_new_tab\<close> is the
  one the registry gives for the \<open>browser_id\<close> of the last rule, in stored order, whose
  pattern matches the URL current at that rule and whose \<open>browser_id\<close> is a string; when
  no matching rule has one, it is the browser of \<open>cfg.browser_default\<close>.
\<close>

theorem browser_of_last_matching_rule:
  "(\<not> isl (fst (select_and_open E wget u cfg))) =
     (\<not> isl (wget (browser_default cfg)) \<and> runs_clean E wget (rules cfg) u) \<and>
   (\<forall>b u'. fst (select_and_open E wget u cfg) = Inr (b, u') \<longrightarrow>
            wget (last_matching_browser_id E cfg u) = Inr b)"
proof
  show "(\<not> isl (fst (select_and_open E wget u cfg))) =
     (\<not> isl (wget (browser_default cfg)) \<and> runs_clean E wget (rules cfg) u)"
    by (cases "wget (browser_default cfg)")
       (simp_all add: select_and_open_def for_cfg_rules_returns)
next
  show "\<forall>b u'. fst (select_and_open E wget u cfg) = Inr (b, u') \<longrightarrow>
            wget (last_matching_browser_id E cfg u) = Inr b"
  proof (intro allI impI)
    fix b u'
    assume ret: "fst (select_and_open E wget u cfg) = Inr (b, u')"
    then obtain sel where
      sel: "wget (browser_default cfg) = Inr sel" and
      run: "fst (for_cfg_rules E wget (rules cfg) cfg (sel, u)) = Inr (b, u')"
      by (auto simp: select_and_open_def split: sum.splits)
    from for_cfg_rules_browser [OF run] sel
    show "wget (last_matching_browser_id E cfg u) = Inr b"
      by (simp add: last_matching_browser_id_def split: if_splits)
  qed
qed

text \<open>
  The specification's fourth example: two rules that both match, the first with
  \<open>firefox\<close>, the later one with \<open>chrome\<close>; the call returns and the result is
  \<open>chrome\<close>.
\<close>

theorem browser_of_last_matching_rule_witness:
  "runs_clean mini_re wget_any
      [[(''url_pattern'', PStr ''github''), (''browser_id'', PStr ''firefox'')],
       [(''url_pattern'', PStr ''https:''), (''browser_id'', PStr ''chrome'')]]
      ''https://github.com/x'' \<and>
   \<not> isl (fst (select_and_open mini_re wget_any ''https://github.com/x''
          \<lparr>browser_default = PStr ''safari'',
             rules = [[(''url_pattern'', PStr ''github''), (''browser_id'', PStr ''firefox'')],
                      [(''url_pattern'', PStr ''https:''), (''browser_id'', PStr ''chrome'')]]\<rparr>)) \<and>
   fst (select_and_open mini_re wget_any ''https://github.com/x''
          \<lparr>browser_default = PStr ''safari'',
             rules = [[(''url_pattern'', PStr ''github''), (''browser_id'', PStr ''firefox'')],
                      [(''url_pattern'', PStr ''https:''), (''browser_id'', PStr ''chrome'')]]\<rparr>)
     = Inr (PStr ''chrome'', ''https://github.com/x'') \<and>
   last_matching_browser_id mini_re
          \<lparr>browser_default = PStr ''safari'',
             rules = [[(''url_pattern'', PStr ''github''), (''browser_id'', PStr ''firefox'')],
                      [(''url_pattern'', PStr ''https:''), (''browser_id'', PStr ''chrome'')]]\<rparr>
          ''https://github.com/x'' = PStr ''chrome'' \<and>
   wget_any (last_matching_browser_id mini_re
          \<lparr>browser_default = PStr ''safari'',
             rules = [[(''url_pattern'', PStr ''github''), (''browser_id'', PStr ''firefox'')],
                      [(''url_pattern'', PStr ''https:''), (''browser_id'', PStr ''chrome'')]]\<rparr>
          ''https://github.com/x'') = Inr (PStr ''chrome'')"
proof -
  let ?rs = "[[(''url_pattern'', PStr ''github''), (''browser_id'', PStr ''firefox'')],
              [(''url_pattern'', PStr ''https:''), (''browser_id'', PStr ''chrome'')]]"
  let ?cfg = "\<lparr>browser_default = PStr ''safari'', rules = ?rs\<rparr>"
  let ?u = "''https://github.com/x''"
  note inst = browser_of_last_matching_rule [of mini_re wget_any ?u ?cfg]
  have clean: "runs_clean mini_re wget_any ?rs ?u" by code_simp
  have dflt: "\<not> isl (wget_any (browser_default ?cfg))" by (simp add: wget_any_def)
  from inst clean dflt have ret: "\<not> isl (fst (select_and_open mini_re wget_any ?u ?cfg))"
    by simp
  have run: "fst (select_and_open mini_re wget_any ?u ?cfg) = Inr (PStr ''chrome'', ?u)"
    by code_simp
  from inst run have br: "wget_any (last_matching_browser_id mini_re ?cfg ?u) = Inr (PStr ''chrome'')"
    by blast
  have ids: "last_matching_browser_id mini_re ?cfg ?u = PStr ''chrome''" by code_simp
  from clean ret run ids br show ?thesis by simp
qed

section \<open>When no rule matches\<close>

text \<open>
  Claim C3 says that resolution returns the default browser and the unchanged URL
  whenever no rule's pattern matches. The single rule \<open>{url_pattern: "("}\<close> matches no
  URL, since its pattern is no regular expression, and the registry knows the default;
  yet the call ends with the compile error and returns nothing. And with no rule at
  all, the call raises when \<open>webbrowser.get\<close> does not find the default browser.
\<close>

theorem no_match_counterexample:
  "\<not> rule_matches mini_re [(''url_pattern'', PStr ''('')] ''https://anything'' \<and>
   wget_any (PStr ''safari'') = Inr (PStr ''safari'') \<and>
   fst (select_and_open mini_re wget_any ''https://anything''
          \<lparr>browser_default = PStr ''safari'', rules = [[(''url_pattern'', PStr ''('')]]\<rparr>)
     = Inl ReError \<and>
   fst (select_and_open mini_re wget_none ''https://anything''
          \<lparr>browser_default = PStr ''safari'', rules = []\<rparr>)
     = Inl BrowserError"
  by code_simp

text \<open>
  Claim C3, as the code has it: when every rule is passed over (its \<open>url_pattern\<close> is
  not a string, or is a regular expression that is not found in the URL),
  \<open>select_and_open\<close> hands over the browser that \<open>webbrowser.get\<close> gives for
  \<open>cfg.browser_default\<close> and the URL it was given, unchanged; when \<open>webbrowser.get\<close> raises
  on the default, the call raises that exception. The configuration is left as it was.
  The empty rule list is the first of the instances below.
\<close>

theorem no_match_is_identity:
  assumes "list_all (passes_over E u) (rules cfg)"
  shows "select_and_open E wget u cfg =
           (case wget (browser_default cfg) of Inl e \<Rightarrow> Inl e | Inr b \<Rightarrow> Inr (b, u), cfg)"
  using assms
  by (simp add: select_and_open_def for_cfg_rules_passes_over split: sum.splits)

text \<open>
  The specification's third example (no rules), a URL that none of three rules
  matches, and a registry without the default browser.
\<close>

theorem no_match_is_identity_witness:
  "select_and_open mini_re wget_any ''https://anything''
     \<lparr>browser_default = PStr ''safari'', rules = []\<rparr>
     = (Inr (PStr ''safari'', ''https://anything''),
        \<lparr>browser_default = PStr ''safari'', rules = []\<rparr>) \<and>
   select_and_open mini_re wget_any ''https://example.org/''
     \<lparr>browser_default = PStr ''safari'',
        rules = [[(''url_pattern'', PStr (''github'' @ [bslash] @ ''.com'')),
                  (''browser_id'', PStr ''chrome'')],
                 [(''url_pattern'', PStr ''(.*)http:''),
                  (''url_replace'', PStr (bslash # ''1https:''))],
                 [(''browser_id'', PStr ''firefox'')]]\<rparr>
     = (Inr (PStr ''safari'', ''https://example.org/''),
        \<lparr>browser_default = PStr ''safari'',
        rules = [[(''url_pattern'', PStr (''github'' @ [bslash] @ ''.com'')),
                  (''browser_id'', PStr ''chrome'')],
                 [(''url_pattern'', PStr ''(.*)http:''),
                  (''url_replace'', PStr (bslash # ''1https:''))],
                 [(''browser_id'', PStr ''firefox'')]]\<rparr>) \<and>
   select_and_open mini_re wget_none ''https://anything''
     \<lparr>browser_default = PStr ''safari'', rules = []\<rparr>
     = (Inl BrowserError, \<lparr>browser_default = PStr ''safari'', rules = []\<rparr>)"
proof -
  let ?c0 = "\<lparr>browser_default = PStr ''safari'', rules = []\<rparr>"
  let ?c1 = "\<lparr>browser_default = PStr ''safari'',
        rules = [[(''url_pattern'', PStr (''github'' @ [bslash] @ ''.com'')),
                  (''browser_id'', PStr ''chrome'')],
                 [(''url_pattern'', PStr ''(.*)http:''),
                  (''url_replace'', PStr (bslash # ''1https:''))],
                 [(''browser_id'', PStr ''firefox'')]]\<rparr>"
  have p0: "list_all (passes_over mini_re ''https://anything'') (rules ?c0)" by simp
  have p1: "list_all (passes_over mini_re ''https://example.org/'') (rules ?c1)" by code_simp
  from no_match_is_identity [of mini_re "''https://anything''" ?c0 wget_any, OF p0]
    no_match_is_identity [of mini_re "''https://example.org/''" ?c1 wget_any, OF p1]
    no_match_is_identity [of mini_re "''https://anything''" ?c0 wget_none, OF p0]
  show ?thesis by (simp add: wget_any_def wget_none_def)
qed

section \<open>Rewriting\<close>





section \<open>The configuration after a call\<close>

text \<open>
  Claim C9: \<open>select_and_open\<close> leaves every object as it found it, whether it returns
  or raises: the heap after the call is the heap before it, so the configuration object,
  its list of rules and each rule are unchanged. So does the main loop, and the outcome
  of each of its calls is the outcome of that call on the heap the program started
  with. When the heap holds the configuration \<open>c\<close>, the call has the outcome that
  \<open>select_and_open\<close> has on \<open>c\<close>, and the heap still holds \<open>c\<close> afterwards.
\<close>

theorem engine_leaves_configuration:
  "snd (select_and_open_h E wget u cfg h) = h \<and>
   snd (main_h E wget args cfg h) = h \<and>
   fst (main_h E wget args cfg h) =
     upto_first_error (map (\<lambda>arg. fst (select_and_open_h E wget arg cfg h)) args) \<and>
   (\<forall>c. config_at h cfg = Some c \<longrightarrow>
        fst (select_and_open_h E wget u cfg h) = fst (select_and_open E wget u c) \<and>
        config_at (snd (select_and_open_h E wget u cfg h)) cfg = Some c)"
  by (simp add: select_and_open_h_heap main_h_heap main_h_outcomes select_and_open_h_refines)

text \<open>
  Three URLs resolved in a row against a configuration of two rules, the first of which
  rewrites and selects a browser.
\<close>

theorem engine_leaves_configuration_witness:
  "config_at
      [OConfig (PStr ''safari'') 1, OList [3, 2],
       ODict [(''browser_id'', PStr ''firefox'')],
       ODict [(''url_pattern'', PStr ''http:''), (''url_replace'', PStr ''https:''),
              (''browser_id'', PStr ''chrome'')]] 0
     = Some \<lparr>browser_default = PStr ''safari'',
         rules = [[(''url_pattern'', PStr ''http:''), (''url_replace'', PStr ''https:''),
                   (''browser_id'', PStr ''chrome'')],
                  [(''browser_id'', PStr ''firefox'')]]\<rparr> \<and>
   main_h mini_re wget_any [''http://a.b/'', ''ftp://c'', ''http://a.b/''] 0
      [OConfig (PStr ''safari'') 1, OList [3, 2],
       ODict [(''browser_id'', PStr ''firefox'')],
       ODict [(''url_pattern'', PStr ''http:''), (''url_replace'', PStr ''https:''),
              (''browser_id'', PStr ''chrome'')]]
     = ([Inr (PStr ''chrome'', ''https://a.b/''), Inr (PStr ''safari'', ''ftp://c''),
         Inr (PStr ''chrome'', ''https://a.b/'')],
        [OConfig (PStr ''safari'') 1, OList [3, 2],
         ODict [(''browser_id'', PStr ''firefox'')],
         ODict [(''url_pattern'', PStr ''http:''), (''url_replace'', PStr ''https:''),
                (''browser_id'', PStr ''chrome'')]]) \<and>
   select_and_open_h mini_re wget_any ''http://a.b/'' 0
      [OConfig (PStr ''safari'') 1, OList [3, 2],
       ODict [(''browser_id'', PStr ''firefox'')],
       ODict [(''url_pattern'', PStr ''http:''), (''url_replace'', PStr ''https:''),
              (''browser_id'', PStr ''chrome'')]]
     = (fst (select_and_open mini_re wget_any ''http://a.b/''
          \<lparr>browser_default = PStr ''safari'',
             rules = [[(''url_pattern'', PStr ''http:''), (''url_replace'', PStr ''https:''),
                       (''browser_id'', PStr ''chrome'')],
                      [(''browser_id'', PStr ''firefox'')]]\<rparr>),
        [OConfig (PStr ''safari'') 1, OList [3, 2],
         ODict [(''browser_id'', PStr ''firefox'')],
         ODict [(''url_pattern'', PStr ''http:''), (''url_replace'', PStr ''https:''),
                (''browser_id'', PStr ''chrome'')]])"
proof -
  let ?h = "[OConfig (PStr ''safari'') 1, OList [3, 2],
       ODict [(''browser_id'', PStr ''firefox'')],
       ODict [(''url_pattern'', PStr ''http:''), (''url_replace'', PStr ''https:''),
              (''browser_id'', PStr ''chrome'')]]"
  let ?c = "\<lparr>browser_default = PStr ''safari'',
         rules = [[(''url_pattern'', PStr ''http:''), (''url_replace'', PStr ''https:''),
                   (''browser_id'', PStr ''chrome'')],
                  [(''browser_id'', PStr ''firefox'')]]\<rparr>"
  let ?args = "[''http://a.b/'', ''ftp://c'', ''http://a.b/'']"
  note inst = engine_leaves_configuration [of mini_re wget_any "''http://a.b/''" 0 ?h ?args]
  have c: "config_at ?h 0 = Some ?c" by code_simp
  have outs: "upto_first_error (map (\<lambda>arg. fst (select_and_open_h mini_re wget_any arg 0 ?h)) ?args)
      = [Inr (PStr ''chrome'', ''https://a.b/''), Inr (PStr ''safari'', ''ftp://c''),
         Inr (PStr ''chrome'', ''https://a.b/'')]"
    by code_simp
  from inst outs have m: "main_h mini_re wget_any ?args 0 ?h
     = ([Inr (PStr ''chrome'', ''https://a.b/''), Inr (PStr ''safari'', ''ftp://c''),
         Inr (PStr ''chrome'', ''https://a.b/'')], ?h)"
    by (simp add: prod_eq_iff)
  from inst c have s: "select_and_open_h mini_re wget_any ''http://a.b/'' 0 ?h
     = (fst (select_and_open mini_re wget_any ''http://a.b/'' ?c), ?h)"
    by (simp add: prod_eq_iff)
  from c m s show ?thesis by blast
qed

section \<open>Fields that are not strings\<close>

text \<open>
  Claim C10: for a rule whose pattern matches, each of the two effects applies exactly
  when its field is a string. With neither field a string the rule changes nothing; with
  a \<open>url_replace\<close> that is not a string the URL stays and the browser is the one of the
  rule's \<open>browser_id\<close>; with a \<open>browser_id\<close> that is not a string the selected browser
  stays and the URL is rewritten.
\<close>

theorem effects_need_strings:
  assumes "dict_get r ''url_pattern'' = PStr pat" "re_compile E pat = Some p" "re_search E p u"
  shows "(\<not> is_basestring (dict_get r ''url_replace'') \<and> \<not> is_basestring (dict_get r ''browser_id'')
            \<longrightarrow> rule_body E wget r (sel, u) = Inr (sel, u)) \<and>
         (\<not> is_basestring (dict_get r ''url_replace'') \<and> dict_get r ''browser_id'' = PStr b
            \<longrightarrow> rule_body E wget r (sel, u) =
                  (case wget (PStr b) of Inl e \<Rightarrow> Inl e | Inr sel' \<Rightarrow> Inr (sel', u))) \<and>
         (dict_get r ''url_replace'' = PStr repl \<and> \<not> is_basestring (dict_get r ''browser_id'')
            \<longrightarrow> rule_body E wget r (sel, u) =
                  (case re_sub E p repl u of None \<Rightarrow> Inl ReError | Some u' \<Rightarrow> Inr (sel, u')))"
  by (auto simp: rule_body_match [OF assms] apply_replace_not_string apply_browser_not_string
      apply_replace_string apply_browser_string split: sum.splits option.splits)

text \<open>
  Instances: a number as template and a boolean as browser; a number as template and a
  browser; a template and a list as browser.
\<close>

theorem effects_need_strings_witness:
  "rule_body mini_re wget_any
     [(''url_pattern'', PStr ''http:''), (''url_replace'', PInt 5), (''browser_id'', PBool True)]
     (PStr ''safari'', ''http://a/'') = Inr (PStr ''safari'', ''http://a/'') \<and>
   rule_body mini_re wget_any
     [(''url_pattern'', PStr ''http:''), (''url_replace'', PInt 5), (''browser_id'', PStr ''chrome'')]
     (PStr ''safari'', ''http://a/'') = Inr (PStr ''chrome'', ''http://a/'') \<and>
   rule_body mini_re wget_any
     [(''url_pattern'', PStr ''http:''), (''url_replace'', PStr ''https:''),
      (''browser_id'', PList [PStr ''chrome''])]
     (PStr ''safari'', ''http://a/'') = Inr (PStr ''safari'', ''https://a/'')"
proof -
  let ?p = "the (re_compile mini_re ''http:'')"
  let ?r1 = "[(''url_pattern'', PStr ''http:''), (''url_replace'', PInt 5), (''browser_id'', PBool True)]"
  let ?r2 = "[(''url_pattern'', PStr ''http:''), (''url_replace'', PInt 5), (''browser_id'', PStr ''chrome'')]"
  let ?r3 = "[(''url_pattern'', PStr ''http:''), (''url_replace'', PStr ''https:''),
      (''browser_id'', PList [PStr ''chrome''])]"
  have c: "re_compile mini_re ''http:'' = Some ?p" by code_simp
  have s: "re_search mini_re ?p ''http://a/''" by code_simp
  have sub: "re_sub mini_re ?p ''https:'' ''http://a/'' = Some ''https://a/''" by code_simp
  have p1: "dict_get ?r1 ''url_pattern'' = PStr ''http:''" by (simp add: dict_get_def)
  have p2: "dict_get ?r2 ''url_pattern'' = PStr ''http:''" by (simp add: dict_get_def)
  have p3: "dict_get ?r3 ''url_pattern'' = PStr ''http:''" by (simp add: dict_get_def)
  have f1: "\<not> is_basestring (dict_get ?r1 ''url_replace'') \<and> \<not> is_basestring (dict_get ?r1 ''browser_id'')"
    by (simp add: dict_get_def)
  have f2: "\<not> is_basestring (dict_get ?r2 ''url_replace'') \<and> dict_get ?r2 ''browser_id'' = PStr ''chrome''"
    by (simp add: dict_get_def)
  have f3: "dict_get ?r3 ''url_replace'' = PStr ''https:'' \<and> \<not> is_basestring (dict_get ?r3 ''browser_id'')"
    by (simp add: dict_get_def)
  have 1: "rule_body mini_re wget_any ?r1 (PStr ''safari'', ''http://a/'') = Inr (PStr ''safari'', ''http://a/'')"
    using effects_need_strings [OF p1 c s, where wget = wget_any and sel = "PStr ''safari''"] f1 by blast
  have 2: "rule_body mini_re wget_any ?r2 (PStr ''safari'', ''http://a/'') = Inr (PStr ''chrome'', ''http://a/'')"
    using effects_need_strings [OF p2 c s, where wget = wget_any and sel = "PStr ''safari''" and b = "''chrome''"] f2
    by (simp add: wget_any_def)
  have 3: "rule_body mini_re wget_any ?r3 (PStr ''safari'', ''http://a/'') = Inr (PStr ''safari'', ''https://a/'')"
    using effects_need_strings [OF p3 c s, where wget = wget_any and sel = "PStr ''safari''" and repl = "''https:''"] f3 sub by simp
  from 1 2 3 show ?thesis by blast
qed

section \<open>Loading never fails\<close>




section \<open>The default browser\<close>




section \<open>The fields of a rule\<close>

text \<open>
  Claim C7 says that a field is kept only when its value is a string, and that an entry
  with no such field is dropped. \<open>load_from_file\<close> copies \<open>r_data[k]\<close> whatever its
  type: the entry \<open>{browser_id: 5}\<close> is loaded, with the number in it.
\<close>

theorem rule_fields_counterexample:
  "rules (snd (Config_init (Some (Inr (PDict
       [(KStr ''rules'', PList [PDict [(KStr ''browser_id'', PInt 5)]])])))))
     = [[(''browser_id'', PInt 5)]] \<and>
   \<not> is_basestring (PInt 5)"
  by code_simp

text \<open>
  Claim C7, as the code has it, for every configuration document: each loaded rule is
  an entry of the \<open>rules\<close> sequence reduced to those of the three fields whose key the
  entry holds, each with the value found there whatever its type; an entry that holds
  none of the three keys is left out; the loaded rules stand in the order of the
  document (they come from the mappings that precede the first entry that is not one).
  Without a document the rule list is empty.
\<close>

theorem rules_keep_present_fields:
  "rules (snd (Config_init found)) =
     (case found of
        Some (Inr doc) \<Rightarrow>
          filter (\<lambda>r. r \<noteq> []) (map present_fields (takeWhile is_mapping (rule_entries doc)))
      | _ \<Rightarrow> []) \<and>
   (\<forall>kvs k. map_of (present_fields (PDict kvs)) k =
              (if k \<in> set rule_keys then map_of kvs (KStr k) else None))"
proof
  show "rules (snd (Config_init found)) =
     (case found of
        Some (Inr doc) \<Rightarrow>
          filter (\<lambda>r. r \<noteq> []) (map present_fields (takeWhile is_mapping (rule_entries doc)))
      | _ \<Rightarrow> [])"
  proof (cases found)
    case None
    then show ?thesis by (simp add: Config_init_def)
  next
    case (Some rd)
    then show ?thesis
      by (cases rd) (simp_all add: Config_init_document Config_init_raises kept_rules_def)
  qed
next
  show "\<forall>kvs k. map_of (present_fields (PDict kvs)) k =
                    (if k \<in> set rule_keys then map_of kvs (KStr k) else None)"
    using present_fields_lookup by blast
qed

text \<open>
  An instance: four entries, of which the second and the third hold none of the keys.
\<close>

theorem rules_keep_present_fields_witness:
  "rules (snd (Config_init (Some (Inr (PDict
       [(KStr ''rules'',
           PList [PDict [(KStr ''url_replace'', PStr ''b''), (KStr ''comment'', PStr ''x''),
                         (KStr ''url_pattern'', PStr ''a'')],
                  PDict [(KStr ''comment'', PStr ''none of the three'')],
                  PDict [],
                  PDict [(KStr ''browser_id'', PInt 5)]])])))))
     = [[(''url_pattern'', PStr ''a''), (''url_replace'', PStr ''b'')], [(''browser_id'', PInt 5)]] \<and>
   map_of (present_fields (PDict [(KStr ''url_replace'', PStr ''b''), (KStr ''comment'', PStr ''x''),
                         (KStr ''url_pattern'', PStr ''a'')])) ''comment'' = None"
proof -
  let ?e1 = "[(KStr ''url_replace'', PStr ''b''), (KStr ''comment'', PStr ''x''),
                         (KStr ''url_pattern'', PStr ''a'')]"
  let ?entries = "[PDict ?e1,
                  PDict [(KStr ''comment'', PStr ''none of the three'')],
                  PDict [],
                  PDict [(KStr ''browser_id'', PInt 5)]]"
  let ?doc = "PDict [(KStr ''rules'', PList ?entries)]"
  note inst = rules_keep_present_fields [of "Some (Inr ?doc)"]
  have 3: "filter (\<lambda>r. r \<noteq> []) (map present_fields (takeWhile is_mapping (rule_entries ?doc)))
      = [[(''url_pattern'', PStr ''a''), (''url_replace'', PStr ''b'')], [(''browser_id'', PInt 5)]]"
    by code_simp
  from inst 3 have a: "rules (snd (Config_init (Some (Inr ?doc))))
      = [[(''url_pattern'', PStr ''a''), (''url_replace'', PStr ''b'')], [(''browser_id'', PInt 5)]]"
    by simp
  from inst have "map_of (present_fields (PDict ?e1)) ''comment''
      = (if ''comment'' \<in> set rule_keys then map_of ?e1 (KStr ''comment'') else None)"
    by blast
  then have b: "map_of (present_fields (PDict ?e1)) ''comment'' = None"
    by (simp add: rule_keys_def)
  from a b show ?thesis by blast
qed

end
